theory Spec2Isabelle
  imports Complex_Main
begin

section \<open>The training script \<open>train.py\<close>\<close>

text \<open>
  The script is one function, \<open>main\<close>. Its phases are embedded one by one, in the order
  of the source: the process environment (lines 25-31), the validation of the arguments
  (lines 61-88), the distributed set-up (lines 92-107), the precision policy (lines
  109-115), the resumption from a checkpoint (lines 160-168), the training of one epoch
  (lines 181-217) and the evaluation pass (lines 226-244).

  Python integers are \<open>int\<close>; \<open>div\<close> and \<open>mod\<close> on \<open>int\<close> round towards minus infinity
  as Python's \<open>//\<close> and \<open>%\<close> do, and the division by zero that Python raises is written
  out as an error value. Python floats and the scalar tensors of the loss and of the
  gradient norm are idealised as \<open>real\<close>: rounding is not modelled.
\<close>

subsection \<open>Errors and warnings\<close>

datatype config_field =
  BatchSize | GradientAccumulationSteps | LearningRate | NumEpochs | EvalEpochs
  | CheckpointEpochs

datatype error =
    ValueError config_field
  | RuntimeError string
  | ZeroDivisionError
  | CheckpointNotFoundError
  | StateShapeMismatchError

datatype warning = DivisibilityWarning

subsection \<open>Process environment (lines 25-31)\<close>

record environ =
  RANK :: int
  LOCAL_RANK :: int
  WORLD_SIZE :: int

definition IS_DDP :: "environ \<Rightarrow> bool" where
  "IS_DDP env = (RANK env \<ge> 0)"

definition IS_MASTER :: "environ \<Rightarrow> bool" where
  "IS_MASTER env = (RANK env = 0 \<or> \<not> IS_DDP env)"

text \<open>What the accelerator library reports: \<open>torch.cuda.is_available()\<close> and
  \<open>torch.cuda.is_bf16_supported()\<close>.\<close>

record platform =
  cuda_is_available :: bool
  is_bf16_supported :: bool

subsection \<open>Command-line arguments (lines 37-59)\<close>

record args =
  batch_size :: int
  gradient_accumulation_steps :: int
  max_samples_per_epoch :: int
  learning_rate :: real
  dropout :: real
  max_gradient_norm :: real
  num_epochs :: int
  eval_epochs :: int
  block_size :: int
  embedding_dimensions :: int
  num_attention_heads :: int
  num_hidden_layers :: int
  checkpoint_epochs :: int
  checkpoint_path :: string
  dataset_path :: string
  num_dataset_processes :: int
  resume :: bool
  device :: string
  seed :: "int option"

text \<open>The defaults of the argument parser.\<close>

definition default_args :: args where
  "default_args =
     \<lparr> batch_size = 4, gradient_accumulation_steps = 32, max_samples_per_epoch = 4096,
       learning_rate = 5 / 10000, dropout = 1 / 10, max_gradient_norm = 1,
       num_epochs = 1000, eval_epochs = 10, block_size = 1024,
       embedding_dimensions = 768, num_attention_heads = 12, num_hidden_layers = 12,
       checkpoint_epochs = 20, checkpoint_path = ''./out/checkpoint.pt'',
       dataset_path = ''./dataset'', num_dataset_processes = 4, resume = False,
       device = ''cuda'', seed = None \<rparr>"

subsection \<open>Strings\<close>

text \<open>Python's \<open>needle in haystack\<close> on strings, and \<open>str\<close> on an integer (the
  f-string \<open>f"cuda:{LOCAL_RANK}"\<close>).\<close>

definition starts_with :: "string \<Rightarrow> string \<Rightarrow> bool" where
  "starts_with needle hay = (take (length needle) hay = needle)"

fun str_contains :: "string \<Rightarrow> string \<Rightarrow> bool" where
  "str_contains needle [] = (needle = [])"
| "str_contains needle (c # cs) =
     (starts_with needle (c # cs) \<or> str_contains needle cs)"

definition digit_char :: "nat \<Rightarrow> char" where
  "digit_char d = ''0123456789'' ! d"

fun str_nat :: "nat \<Rightarrow> string" where
  "str_nat n =
     (if n < 10 then [digit_char n] else str_nat (n div 10) @ [digit_char (n mod 10)])"

declare str_nat.simps [simp del]

definition str_int :: "int \<Rightarrow> string" where
  "str_int i = (if i < 0 then CHR ''-'' # str_nat (nat (- i)) else str_nat (nat i))"

subsection \<open>Validation of the arguments (lines 61-88)\<close>

definition validate_args :: "platform \<Rightarrow> args \<Rightarrow> error + unit" where
  "validate_args pf a =
     (if batch_size a < 1 then Inl (ValueError BatchSize)
      else if gradient_accumulation_steps a < 1 then Inl (ValueError GradientAccumulationSteps)
      else if learning_rate a < 0 then Inl (ValueError LearningRate)
      else if num_epochs a < 1 then Inl (ValueError NumEpochs)
      else if eval_epochs a < 1 then Inl (ValueError EvalEpochs)
      else if checkpoint_epochs a < 1 then Inl (ValueError CheckpointEpochs)
      else if str_contains ''cuda'' (device a) \<and> \<not> cuda_is_available pf
        then Inl (RuntimeError ''Cuda is not available.'')
      else Inr ())"

subsection \<open>Distributed set-up (lines 92-107)\<close>

text \<open>
  In a distributed run the device becomes \<open>cuda:LOCAL_RANK\<close>, a warning is issued when
  the accumulation steps leave a remainder modulo the world size, the accumulation steps
  are floor-divided by the world size, and a seed that is set (and not zero: the test is
  Python's truthiness) is offset by the rank. The remainder by a world size of zero
  raises.
\<close>

definition ddp_setup :: "environ \<Rightarrow> args \<Rightarrow> error + args \<times> warning list" where
  "ddp_setup env a =
     (if IS_DDP env then
        (if WORLD_SIZE env = 0 then Inl ZeroDivisionError
         else
           let a1 = a\<lparr>device := ''cuda:'' @ str_int (LOCAL_RANK env)\<rparr>;
               ws = (if gradient_accumulation_steps a1 mod WORLD_SIZE env \<noteq> 0
                     then [DivisibilityWarning] else []);
               a2 = a1\<lparr>gradient_accumulation_steps :=
                          gradient_accumulation_steps a1 div WORLD_SIZE env\<rparr>;
               a3 = (case seed a2 of
                       None \<Rightarrow> a2
                     | Some s \<Rightarrow> if s \<noteq> 0 then a2\<lparr>seed := Some (s + RANK env)\<rparr> else a2)
           in Inr (a3, ws))
      else Inr (a, []))"

subsection \<open>Precision policy (lines 109-115)\<close>

datatype dtype = bfloat16 | float32

record autocast =
  device_type :: string
  ac_dtype :: dtype

definition select_dtype :: "platform \<Rightarrow> args \<Rightarrow> dtype" where
  "select_dtype pf a =
     (if device a = ''cuda'' \<and> is_bf16_supported pf then bfloat16 else float32)"

definition forward_context :: "platform \<Rightarrow> args \<Rightarrow> autocast" where
  "forward_context pf a = \<lparr> device_type = device a, ac_dtype = select_dtype pf a \<rparr>"

text \<open>Lines 61-115 in sequence: the arguments as the rest of \<open>main\<close> sees them, the
  warnings issued, and the autocast context.\<close>

definition startup ::
  "platform \<Rightarrow> environ \<Rightarrow> args \<Rightarrow> error + args \<times> warning list \<times> autocast" where
  "startup pf env a =
     (case validate_args pf a of
        Inl e \<Rightarrow> Inl e
      | Inr _ \<Rightarrow>
          (case ddp_setup env a of
             Inl e \<Rightarrow> Inl e
           | Inr (a', ws) \<Rightarrow> Inr (a', ws, forward_context pf a')))"

subsection \<open>Resuming from a checkpoint (lines 160-168)\<close>

text \<open>
  The script reads the checkpoint with \<open>torch.load\<close> and hands its \<open>model\<close> and
  \<open>optimizer\<close> entries to the two \<open>load_state_dict\<close> methods, in this order, without
  catching anything: an exception of a library call ends the run. The entry \<open>model_args\<close>
  of the checkpoint is not read. A state dictionary is the shapes of its tensors and their
  contents; the storage maps a path to the checkpoint written there.
\<close>

record 'w state_dict =
  shapes :: "nat list list"
  tensors :: 'w

record ('w, 'o) checkpoint =
  ck_model :: "'w state_dict"
  ck_optimizer :: 'o

text \<open>Modelled from the spec: \<open>torch.load\<close>, a library call whose code is not in the
  script. Loading fails with the checkpoint-not-found kind when the path is absent.\<close>

definition torch_load ::
  "(string \<rightharpoonup> ('w, 'o) checkpoint) \<Rightarrow> string \<Rightarrow> error + ('w, 'o) checkpoint" where
  "torch_load storage path =
     (case storage path of None \<Rightarrow> Inl CheckpointNotFoundError | Some ck \<Rightarrow> Inr ck)"

text \<open>Modelled from the spec: \<open>Module.load_state_dict\<close>, a library call whose code is
  not in the script. It fails with the shape-mismatch kind when the loaded shapes differ
  from those of the live model (fixed by its construction arguments), and otherwise
  replaces the model's state by the loaded one.\<close>

definition load_state_dict :: "'w state_dict \<Rightarrow> 'w state_dict \<Rightarrow> error + 'w state_dict" where
  "load_state_dict live loaded =
     (if shapes loaded = shapes live then Inr loaded else Inl StateShapeMismatchError)"

text \<open>Modelled from the spec: \<open>Optimizer.load_state_dict\<close>, a library call whose code is
  not in the script. It replaces the optimizer's state by the loaded one.\<close>

definition optimizer_load_state_dict :: "'o \<Rightarrow> 'o \<Rightarrow> 'o" where
  "optimizer_load_state_dict live loaded = loaded"

definition resume_checkpoint ::
  "(string \<rightharpoonup> ('w, 'o) checkpoint) \<Rightarrow> args \<Rightarrow> 'w state_dict \<times> 'o
     \<Rightarrow> error + 'w state_dict \<times> 'o" where
  "resume_checkpoint storage a = (\<lambda>(model, optimizer).
     if resume a then
       (case torch_load storage (checkpoint_path a) of
          Inl e \<Rightarrow> Inl e
        | Inr ck \<Rightarrow>
            (case load_state_dict model (ck_model ck) of
               Inl e \<Rightarrow> Inl e
             | Inr model' \<Rightarrow>
                 Inr (model', optimizer_load_state_dict optimizer (ck_optimizer ck))))
     else Inr (model, optimizer))"

subsection \<open>Collaborators and their effects\<close>

text \<open>
  The model, the optimizer, the metric and the autograd engine are opaque collaborators.
  Every call the script makes to one of them is recorded, in order, as an event, with the
  arguments and the ambient modes the call runs under. What a collaborator returns (the
  loss of a forward pass, the norm that \<open>clip_grad_norm_\<close> reports) may depend on
  everything done so far, so it is a function of the events up to the call.
\<close>

datatype event =
    Forward autocast bool bool
      \<comment> \<open>\<open>model(...)\<close>: autocast context, \<open>model.training\<close>, gradient mode enabled\<close>
  | Backward bool real
      \<comment> \<open>\<open>loss.backward()\<close>: gradients synchronized across workers, the loss\<close>
  | ClipGradNorm real
  | OptimizerStep
  | ZeroGrad
  | MetricUpdate
  | MetricCompute
  | MetricReset

record 'x substrate =
  model_loss :: "event list \<Rightarrow> 'x \<Rightarrow> real"
  clip_norm :: "event list \<Rightarrow> real"

record run_state =
  training :: bool
  grad_enabled :: bool
  metric_updates :: nat
  trace :: "event list"

definition emit :: "event \<Rightarrow> run_state \<Rightarrow> run_state" where
  "emit e s = s\<lparr>trace := trace s @ [e]\<rparr>"

text \<open>The calls that read or write the optimizer's state.\<close>

fun touches_optimizer :: "event \<Rightarrow> bool" where
  "touches_optimizer OptimizerStep = True"
| "touches_optimizer ZeroGrad = True"
| "touches_optimizer _ = False"

definition optimizer_events :: "event list \<Rightarrow> event list" where
  "optimizer_events tr = filter touches_optimizer tr"

text \<open>The gradient mode and the model mode of the forward passes of a trace, in order.\<close>

fun forward_grad_modes :: "event list \<Rightarrow> bool list" where
  "forward_grad_modes [] = []"
| "forward_grad_modes (Forward c t g # es) = g # forward_grad_modes es"
| "forward_grad_modes (e # es) = forward_grad_modes es"

fun forward_training_modes :: "event list \<Rightarrow> bool list" where
  "forward_training_modes [] = []"
| "forward_training_modes (Forward c t g # es) = t # forward_training_modes es"
| "forward_training_modes (e # es) = forward_training_modes es"

fun forward_contexts :: "event list \<Rightarrow> autocast list" where
  "forward_contexts [] = []"
| "forward_contexts (Forward c t g # es) = c # forward_contexts es"
| "forward_contexts (e # es) = forward_contexts es"

text \<open>The scaled losses handed to the backward passes of a trace, and the norms that
  the clipping calls of a trace returned (\<open>pre\<close> is what happened before the trace).\<close>

fun backward_losses :: "event list \<Rightarrow> real list" where
  "backward_losses [] = []"
| "backward_losses (Backward b l # es) = l # backward_losses es"
| "backward_losses (e # es) = backward_losses es"

fun returned_norms :: "'x substrate \<Rightarrow> event list \<Rightarrow> event list \<Rightarrow> real list" where
  "returned_norms sub pre [] = []"
| "returned_norms sub pre (ClipGradNorm m # es) =
     clip_norm sub pre # returned_norms sub (pre @ [ClipGradNorm m]) es"
| "returned_norms sub pre (e # es) = returned_norms sub (pre @ [e]) es"

text \<open>The calls of a trace without their arguments, and the calls expected of the batch
  with 1-based index \<open>step\<close>: a forward and a backward pass, followed at a window
  boundary by the clipping, the optimizer step and the zeroing of the gradients.\<close>

datatype call = ForwardCall | BackwardCall | ClipCall | StepCall | ZeroGradCall | MetricCall

fun call_of :: "event \<Rightarrow> call" where
  "call_of (Forward c t g) = ForwardCall"
| "call_of (Backward b l) = BackwardCall"
| "call_of (ClipGradNorm m) = ClipCall"
| "call_of OptimizerStep = StepCall"
| "call_of ZeroGrad = ZeroGradCall"
| "call_of _ = MetricCall"

definition batch_calls :: "int \<Rightarrow> int \<Rightarrow> call list" where
  "batch_calls accumulation_steps step =
     [ForwardCall, BackwardCall] @
     (if step mod accumulation_steps = 0 then [ClipCall, StepCall, ZeroGradCall] else [])"

text \<open>The state in which the first epoch starts: line 176 has put the model in training
  mode, gradients are enabled, the metric is empty, nothing has been called.\<close>

definition initial_state :: run_state where
  "initial_state = \<lparr> training = True, grad_enabled = True, metric_updates = 0, trace = [] \<rparr>"

subsection \<open>Training one epoch (lines 181-217)\<close>

record epoch_acc =
  total_cross_entropy :: real
  total_gradient_norm :: real
  total_batches :: int
  total_steps :: int

definition init_acc :: epoch_acc where
  "init_acc = \<lparr> total_cross_entropy = 0, total_gradient_norm = 0,
                total_batches = 0, total_steps = 0 \<rparr>"

text \<open>Lines 195-199: the backward pass runs inside \<open>model.no_sync()\<close> when the run is
  distributed and the step differs from the accumulation steps.\<close>

definition no_sync :: "bool \<Rightarrow> int \<Rightarrow> int \<Rightarrow> bool" where
  "no_sync is_ddp step accumulation_steps = (is_ddp \<and> step \<noteq> accumulation_steps)"

text \<open>
  Lines 187-214, one batch. The division of the loss tensor does not raise, whatever the
  divisor; the remainder \<open>step % args.gradient_accumulation_steps\<close> of Python integers
  raises on zero, after the backward pass, and the state reached by then is lost with the
  process.
\<close>

definition train_batch ::
  "'x substrate \<Rightarrow> autocast \<Rightarrow> bool \<Rightarrow> args \<Rightarrow> int \<Rightarrow> 'x \<Rightarrow> epoch_acc \<times> run_state
     \<Rightarrow> error + epoch_acc \<times> run_state" where
  "train_batch sub ctx is_ddp a step xy = (\<lambda>(acc, s).
     let loss = model_loss sub (trace s) xy;
         s1 = emit (Forward ctx (training s) (grad_enabled s)) s;
         loss = loss / of_int (gradient_accumulation_steps a);
         s2 = emit (Backward (\<not> no_sync is_ddp step (gradient_accumulation_steps a)) loss) s1;
         acc1 = acc\<lparr>total_cross_entropy := total_cross_entropy acc + loss\<rparr>
     in if gradient_accumulation_steps a = 0 then Inl ZeroDivisionError
        else
          let (acc2, s3) =
                (if step mod gradient_accumulation_steps a = 0 then
                   let norm = clip_norm sub (trace s2);
                       s' = emit ZeroGrad (emit OptimizerStep
                              (emit (ClipGradNorm (max_gradient_norm a)) s2))
                   in (acc1\<lparr>total_gradient_norm := total_gradient_norm acc1 + norm,
                            total_steps := total_steps acc1 + 1\<rparr>, s')
                 else (acc1, s2))
          in Inr (acc2\<lparr>total_batches := total_batches acc2 + 1\<rparr>, s3))"

text \<open>Lines 184-214: the loop over the batches, \<open>step\<close> counting from 1.\<close>

fun train_loop ::
  "'x substrate \<Rightarrow> autocast \<Rightarrow> bool \<Rightarrow> args \<Rightarrow> int \<Rightarrow> 'x list \<Rightarrow> epoch_acc \<times> run_state
     \<Rightarrow> error + epoch_acc \<times> run_state" where
  "train_loop sub ctx is_ddp a step [] st = Inr st"
| "train_loop sub ctx is_ddp a step (xy # rest) st =
     (case train_batch sub ctx is_ddp a step xy st of
        Inl e \<Rightarrow> Inl e
      | Inr st' \<Rightarrow> train_loop sub ctx is_ddp a (step + 1) rest st')"

text \<open>Python's \<open>float / int\<close>, which raises on zero.\<close>

definition py_truediv :: "real \<Rightarrow> int \<Rightarrow> error + real" where
  "py_truediv x n = (if n = 0 then Inl ZeroDivisionError else Inr (x / of_int n))"

record epoch_report =
  average_cross_entropy :: real
  average_gradient_norm :: real

text \<open>Lines 216-217: the two averages, the loss first.\<close>

definition report :: "epoch_acc \<Rightarrow> error + epoch_report" where
  "report acc =
     (case py_truediv (total_cross_entropy acc) (total_batches acc) of
        Inl e \<Rightarrow> Inl e
      | Inr ce \<Rightarrow>
          (case py_truediv (total_gradient_norm acc) (total_steps acc) of
             Inl e \<Rightarrow> Inl e
           | Inr gn \<Rightarrow> Inr \<lparr> average_cross_entropy = ce, average_gradient_norm = gn \<rparr>))"

text \<open>Lines 181-223: one epoch, from fresh accumulators to the report.\<close>

definition train_epoch ::
  "'x substrate \<Rightarrow> autocast \<Rightarrow> bool \<Rightarrow> args \<Rightarrow> 'x list \<Rightarrow> run_state
     \<Rightarrow> error + epoch_report \<times> run_state" where
  "train_epoch sub ctx is_ddp a batches s =
     (case train_loop sub ctx is_ddp a 1 batches (init_acc, s) of
        Inl e \<Rightarrow> Inl e
      | Inr (acc, s') \<Rightarrow>
          (case report acc of Inl e \<Rightarrow> Inl e | Inr r \<Rightarrow> Inr (r, s')))"

subsection \<open>Evaluation pass (lines 226-244)\<close>

text \<open>One test batch: the forward pass and the metric update run inside
  \<open>torch.no_grad()\<close>, which restores the previous gradient mode on exit.\<close>

definition eval_batch :: "autocast \<Rightarrow> 'x \<Rightarrow> run_state \<Rightarrow> run_state" where
  "eval_batch ctx xy s =
     (let prev = grad_enabled s;
          s1 = s\<lparr>grad_enabled := False\<rparr>;
          s2 = emit (Forward ctx (training s1) (grad_enabled s1)) s1;
          s3 = emit MetricUpdate (s2\<lparr>metric_updates := metric_updates s2 + 1\<rparr>)
      in s3\<lparr>grad_enabled := prev\<rparr>)"

fun eval_loop :: "autocast \<Rightarrow> 'x list \<Rightarrow> run_state \<Rightarrow> run_state" where
  "eval_loop ctx [] s = s"
| "eval_loop ctx (xy # rest) s = eval_loop ctx rest (eval_batch ctx xy s)"

definition evaluate :: "autocast \<Rightarrow> 'x list \<Rightarrow> run_state \<Rightarrow> run_state" where
  "evaluate ctx test_batches s =
     (let s1 = s\<lparr>training := False\<rparr>;
          s2 = eval_loop ctx test_batches s1;
          s3 = emit MetricCompute s2;
          s4 = emit MetricReset (s3\<lparr>metric_updates := 0\<rparr>)
      in s4\<lparr>training := True\<rparr>)"

section \<open>Properties\<close>

subsection \<open>Auxiliary facts\<close>

lemma train_batch_ok:
  assumes "gradient_accumulation_steps a \<noteq> 0"
  shows "train_batch sub ctx d a step xy (acc, s) =
    (let l = model_loss sub (trace s) xy / of_int (gradient_accumulation_steps a);
         b = (step mod gradient_accumulation_steps a = 0);
         ev = [Forward ctx (training s) (grad_enabled s),
               Backward (\<not> no_sync d step (gradient_accumulation_steps a)) l]
     in Inr (acc\<lparr>total_cross_entropy := total_cross_entropy acc + l,
               total_gradient_norm := total_gradient_norm acc +
                  (if b then clip_norm sub (trace s @ ev) else 0),
               total_steps := total_steps acc + (if b then 1 else 0),
               total_batches := total_batches acc + 1\<rparr>,
            s\<lparr>trace := trace s @ ev @
                  (if b then [ClipGradNorm (max_gradient_norm a), OptimizerStep, ZeroGrad] else [])\<rparr>))"
  using assms by (simp add: train_batch_def emit_def Let_def)

lemma div_succ_int:
  fixes a k :: int
  assumes "0 < a"
  shows "(k + 1) div a = k div a + (if (k + 1) mod a = 0 then 1 else 0)"
proof (cases "k mod a + 1 = a")
  case True
  have "k + 1 = a * (k div a) + a"
    using True mult_div_mod_eq [of a k] by linarith
  then have "k + 1 = a * (k div a + 1) + 0"
    by (simp add: algebra_simps)
  then have "(k + 1) div a = k div a + 1" and "(k + 1) mod a = 0"
    using assms int_div_pos_eq [of "k + 1" a "k div a + 1" 0]
      int_mod_pos_eq [of "k + 1" a "k div a + 1" 0] by simp_all
  then show ?thesis by simp
next
  case False
  have r: "0 \<le> k mod a" "k mod a < a" using assms by simp_all
  with False have lt: "k mod a + 1 < a" by simp
  have "k + 1 = a * (k div a) + (k mod a + 1)"
    using mult_div_mod_eq [of a k] by linarith
  then have "(k + 1) div a = k div a" and "(k + 1) mod a = k mod a + 1"
    using r lt int_div_pos_eq [of "k + 1" a "k div a" "k mod a + 1"]
      int_mod_pos_eq [of "k + 1" a "k div a" "k mod a + 1"] by simp_all
  with r show ?thesis by simp
qed

lemma backward_losses_append:
  "backward_losses (xs @ ys) = backward_losses xs @ backward_losses ys"
  by (induction xs rule: backward_losses.induct) simp_all

lemma returned_norms_append:
  "returned_norms sub pre (xs @ ys) =
     returned_norms sub pre xs @ returned_norms sub (pre @ xs) ys"
  by (induction sub pre xs rule: returned_norms.induct) simp_all

lemma train_batch_effect:
  assumes "gradient_accumulation_steps a \<noteq> 0"
  shows "\<exists>acc' s' ev. train_batch sub ctx d a step xy (acc, s) = Inr (acc', s')
     \<and> trace s' = trace s @ ev
     \<and> map call_of ev = batch_calls (gradient_accumulation_steps a) step
     \<and> total_batches acc' = total_batches acc + 1
     \<and> total_steps acc' =
          total_steps acc + (if step mod gradient_accumulation_steps a = 0 then 1 else 0)
     \<and> total_cross_entropy acc' = total_cross_entropy acc + sum_list (backward_losses ev)
     \<and> total_gradient_norm acc' =
          total_gradient_norm acc + sum_list (returned_norms sub (trace s) ev)
     \<and> training s' = training s \<and> grad_enabled s' = grad_enabled s
     \<and> metric_updates s' = metric_updates s"
  unfolding train_batch_ok [OF assms] by (simp add: Let_def batch_calls_def)

lemma train_loop_run:
  assumes "0 < gradient_accumulation_steps a"
  shows "\<exists>acc' s'. train_loop sub ctx d a (k + 1) bs (acc, s) = Inr (acc', s')
     \<and> total_batches acc' = total_batches acc + int (length bs)
     \<and> total_steps acc' = total_steps acc +
          ((k + int (length bs)) div gradient_accumulation_steps a
             - k div gradient_accumulation_steps a)
     \<and> training s' = training s \<and> grad_enabled s' = grad_enabled s
     \<and> metric_updates s' = metric_updates s
     \<and> take (length (trace s)) (trace s') = trace s
     \<and> map call_of (drop (length (trace s)) (trace s')) =
          concat (map (batch_calls (gradient_accumulation_steps a))
            [k + 1 .. k + int (length bs)])
     \<and> total_cross_entropy acc' = total_cross_entropy acc +
          sum_list (backward_losses (drop (length (trace s)) (trace s')))
     \<and> total_gradient_norm acc' = total_gradient_norm acc +
          sum_list (returned_norms sub (trace s) (drop (length (trace s)) (trace s')))"
proof (induction bs arbitrary: k acc s)
  case Nil
  then show ?case by simp
next
  case (Cons xy rest)
  let ?g = "gradient_accumulation_steps a"
  have g0: "?g \<noteq> 0" using assms by simp
  from train_batch_effect [OF g0, of sub ctx d "k + 1" xy acc s]
  obtain acc1 s1 ev where b: "train_batch sub ctx d a (k + 1) xy (acc, s) = Inr (acc1, s1)"
    and ev: "trace s1 = trace s @ ev" "map call_of ev = batch_calls ?g (k + 1)"
    and tb: "total_batches acc1 = total_batches acc + 1"
    and ts: "total_steps acc1 = total_steps acc + (if (k + 1) mod ?g = 0 then 1 else 0)"
    and ce: "total_cross_entropy acc1 = total_cross_entropy acc + sum_list (backward_losses ev)"
    and gn: "total_gradient_norm acc1 =
               total_gradient_norm acc + sum_list (returned_norms sub (trace s) ev)"
    and tm: "training s1 = training s" "grad_enabled s1 = grad_enabled s"
            "metric_updates s1 = metric_updates s"
    by blast
  from Cons.IH [of "k + 1" acc1 s1] obtain acc' s' where
    l: "train_loop sub ctx d a (k + 1 + 1) rest (acc1, s1) = Inr (acc', s')"
    and ltb: "total_batches acc' = total_batches acc1 + int (length rest)"
    and lts: "total_steps acc' =
                total_steps acc1 + ((k + 1 + int (length rest)) div ?g - (k + 1) div ?g)"
    and ltm: "training s' = training s1" "grad_enabled s' = grad_enabled s1"
             "metric_updates s' = metric_updates s1"
    and ltk: "take (length (trace s1)) (trace s') = trace s1"
    and ltr: "map call_of (drop (length (trace s1)) (trace s')) =
          concat (map (batch_calls ?g) [k + 1 + 1 .. k + 1 + int (length rest)])"
    and lce: "total_cross_entropy acc' = total_cross_entropy acc1 +
          sum_list (backward_losses (drop (length (trace s1)) (trace s')))"
    and lgn: "total_gradient_norm acc' = total_gradient_norm acc1 +
          sum_list (returned_norms sub (trace s1) (drop (length (trace s1)) (trace s')))"
    by blast
  have run: "train_loop sub ctx d a (k + 1) (xy # rest) (acc, s) = Inr (acc', s')"
    using b l by simp
  have steps: "total_steps acc' =
      total_steps acc + ((k + int (length (xy # rest))) div ?g - k div ?g)"
    using lts ts div_succ_int [OF assms, of k] by (simp add: algebra_simps)
  from ltk obtain ev' where ev': "trace s' = trace s1 @ ev'"
    by (metis append_take_drop_id)
  have pre: "take (length (trace s)) (trace s') = trace s"
    using ev ev' by simp
  have d: "drop (length (trace s)) (trace s') = ev @ ev'"
    using ev ev' by simp
  have d1: "drop (length (trace s1)) (trace s') = ev'"
    using ev' by simp
  have up: "[k + 1 .. k + int (length (xy # rest))] =
      (k + 1) # [k + 1 + 1 .. k + 1 + int (length rest)]"
  proof -
    have "[k + 1 .. k + int (length (xy # rest))] =
        (k + 1) # [k + 1 + 1 .. k + int (length (xy # rest))]"
      by (rule upto_rec1) simp
    moreover have "k + int (length (xy # rest)) = k + 1 + int (length rest)"
      by simp
    ultimately show ?thesis by (simp only:)
  qed
  have calls: "map call_of (drop (length (trace s)) (trace s')) =
      concat (map (batch_calls ?g) [k + 1 .. k + int (length (xy # rest))])"
    using ev ltr d d1 up by simp
  have losses: "total_cross_entropy acc' = total_cross_entropy acc +
      sum_list (backward_losses (drop (length (trace s)) (trace s')))"
    using ce lce d d1 by (simp add: backward_losses_append)
  have norms: "total_gradient_norm acc' = total_gradient_norm acc +
      sum_list (returned_norms sub (trace s) (drop (length (trace s)) (trace s')))"
    using gn lgn d d1 ev by (simp add: returned_norms_append)
  show ?case
    using run ltb tb steps ltm tm pre calls losses norms by simp
qed

lemma eval_loop_run:
  "trace (eval_loop ctx bs s) =
     trace s @ concat (map (\<lambda>xy. [Forward ctx (training s) False, MetricUpdate]) bs)
   \<and> training (eval_loop ctx bs s) = training s
   \<and> grad_enabled (eval_loop ctx bs s) = grad_enabled s
   \<and> metric_updates (eval_loop ctx bs s) = metric_updates s + length bs"
  by (induction bs arbitrary: s) (simp_all add: eval_batch_def emit_def Let_def)

lemma forward_grad_modes_eval:
  "forward_grad_modes (concat (map (\<lambda>xy. [Forward c t g, MetricUpdate]) bs) @ [MetricCompute, MetricReset])
     = replicate (length bs) g"
  by (induction bs) simp_all

lemma forward_training_modes_eval:
  "forward_training_modes (concat (map (\<lambda>xy. [Forward c t g, MetricUpdate]) bs) @ [MetricCompute, MetricReset])
     = replicate (length bs) t"
  by (induction bs) simp_all

lemma forward_contexts_eval:
  "forward_contexts (concat (map (\<lambda>xy. [Forward c t g, MetricUpdate]) bs) @ [MetricCompute, MetricReset])
     = replicate (length bs) c"
  by (induction bs) simp_all

lemma optimizer_events_eval:
  "optimizer_events (pre @ concat (map (\<lambda>xy. [Forward c t g, MetricUpdate]) bs) @ [MetricCompute, MetricReset])
     = optimizer_events pre"
  by (induction bs) (simp_all add: optimizer_events_def)

lemma evaluate_trace:
  "trace (evaluate ctx bs s) =
     trace s @ concat (map (\<lambda>xy. [Forward ctx False False, MetricUpdate]) bs)
       @ [MetricCompute, MetricReset]"
  using eval_loop_run [of ctx bs "s\<lparr>training := False\<rparr>"]
  by (simp add: evaluate_def emit_def Let_def)

subsection \<open>The claims\<close>

text \<open>
  Claim C1 (gradient synchronization at window boundaries). In a distributed run the
  backward pass would have to synchronize exactly on the steps that are multiples of the
  accumulation steps. The script compares the step with the accumulation steps for
  equality, where line 204 takes the remainder. With two accumulation steps, batch 4 of
  an epoch closes the second window: its backward pass runs inside \<open>no_sync\<close>, and the
  optimizer step that follows applies gradients that were not synchronized.
\<close>

theorem no_sync_at_later_window_boundary:
  "4 mod gradient_accumulation_steps (default_args\<lparr>gradient_accumulation_steps := 2\<rparr>) = 0
   \<and> no_sync True 4 (gradient_accumulation_steps (default_args\<lparr>gradient_accumulation_steps := 2\<rparr>))
   \<and> map_sum id (trace \<circ> snd)
        (train_batch sub ctx True (default_args\<lparr>gradient_accumulation_steps := 2\<rparr>) 4 xy
           (init_acc, initial_state))
      = Inr [Forward ctx True True, Backward False (model_loss sub [] xy / 2),
             ClipGradNorm 1, OptimizerStep, ZeroGrad]"
  by (simp add: train_batch_def emit_def Let_def no_sync_def initial_state_def
      default_args_def)

text \<open>
  Claim C2 (optimizer steps of an epoch). With positive accumulation steps \<open>a\<close>, an epoch
  of \<open>n\<close> batches goes through all of them and counts \<open>n div a\<close> optimizer steps. Its
  calls are, batch by batch from index 1, a forward and a backward pass, followed by the
  clipping, the optimizer step and the zeroing exactly at the indices that are multiples
  of \<open>a\<close>. The accumulated gradient norm is the sum of the norms the clipping calls
  returned, and the reported average divides it by \<open>n div a\<close>, the loss total being
  divided by \<open>n\<close>; when \<open>n div a\<close> is zero the report raises instead.
\<close>

theorem optimizer_steps_per_epoch:
  assumes "0 < gradient_accumulation_steps a"
  shows "\<exists>acc s'. train_loop sub ctx d a 1 batches (init_acc, s) = Inr (acc, s')
     \<and> total_batches acc = int (length batches)
     \<and> total_steps acc = int (length batches) div gradient_accumulation_steps a
     \<and> take (length (trace s)) (trace s') = trace s
     \<and> map call_of (drop (length (trace s)) (trace s')) =
          concat (map (batch_calls (gradient_accumulation_steps a)) [1 .. int (length batches)])
     \<and> total_gradient_norm acc =
          sum_list (returned_norms sub (trace s) (drop (length (trace s)) (trace s')))
     \<and> report acc =
          (if int (length batches) div gradient_accumulation_steps a = 0
           then Inl ZeroDivisionError
           else Inr \<lparr> average_cross_entropy =
                        total_cross_entropy acc / of_int (int (length batches)),
                      average_gradient_norm =
                        total_gradient_norm acc /
                          of_int (int (length batches) div gradient_accumulation_steps a) \<rparr>)
     \<and> train_epoch sub ctx d a batches s =
          (case report acc of Inl e \<Rightarrow> Inl e | Inr r \<Rightarrow> Inr (r, s'))"
proof -
  let ?g = "gradient_accumulation_steps a"
  let ?n = "int (length batches)"
  from train_loop_run [OF assms, of sub ctx d 0 batches init_acc s]
  obtain acc s' where run: "train_loop sub ctx d a 1 batches (init_acc, s) = Inr (acc, s')"
    and tb: "total_batches acc = ?n"
    and ts: "total_steps acc = ?n div ?g"
    and pre: "take (length (trace s)) (trace s') = trace s"
    and calls: "map call_of (drop (length (trace s)) (trace s')) =
        concat (map (batch_calls ?g) [1 .. ?n])"
    and gn: "total_gradient_norm acc =
        sum_list (returned_norms sub (trace s) (drop (length (trace s)) (trace s')))"
    by (auto simp: init_acc_def)
  have n0: "?n div ?g \<noteq> 0 \<Longrightarrow> ?n \<noteq> 0" by auto
  have r: "report acc =
      (if ?n div ?g = 0 then Inl ZeroDivisionError
       else Inr \<lparr> average_cross_entropy = total_cross_entropy acc / of_int ?n,
                  average_gradient_norm = total_gradient_norm acc / of_int (?n div ?g) \<rparr>)"
    using n0 by (simp add: report_def py_truediv_def tb ts)
  have e: "train_epoch sub ctx d a batches s =
      (case report acc of Inl e \<Rightarrow> Inl e | Inr r \<Rightarrow> Inr (r, s'))"
    using run by (simp add: train_epoch_def)
  show ?thesis
    using run tb ts pre calls gn r e by blast
qed

theorem optimizer_steps_per_epoch_witness:
  "0 < gradient_accumulation_steps (default_args\<lparr>gradient_accumulation_steps := 2\<rparr>)
   \<and> (\<exists>acc s'. train_loop \<lparr>model_loss = \<lambda>tr xy. 3, clip_norm = \<lambda>tr. 1\<rparr>
          \<lparr>device_type = ''cuda'', ac_dtype = bfloat16\<rparr> False
          (default_args\<lparr>gradient_accumulation_steps := 2\<rparr>) 1 [(), (), (), (), ()]
          (init_acc, initial_state) = Inr (acc, s')
        \<and> total_batches acc = 5 \<and> total_steps acc = 2
        \<and> map call_of (trace s') =
            [ForwardCall, BackwardCall,
             ForwardCall, BackwardCall, ClipCall, StepCall, ZeroGradCall,
             ForwardCall, BackwardCall,
             ForwardCall, BackwardCall, ClipCall, StepCall, ZeroGradCall,
             ForwardCall, BackwardCall]
        \<and> report acc = Inr \<lparr> average_cross_entropy = total_cross_entropy acc / 5,
                               average_gradient_norm = total_gradient_norm acc / 2 \<rparr>)"
proof -
  have u: "[1 .. 5::int] = [1, 2, 3, 4, 5]" by code_simp
  from optimizer_steps_per_epoch
    [of "default_args\<lparr>gradient_accumulation_steps := 2\<rparr>"
        "\<lparr>model_loss = \<lambda>tr xy. 3, clip_norm = \<lambda>tr. 1\<rparr>"
        "\<lparr>device_type = ''cuda'', ac_dtype = bfloat16\<rparr>" False "[(), (), (), (), ()]"
        initial_state]
  show ?thesis
    by (auto simp: u batch_calls_def initial_state_def)
qed

text \<open>
  Claim C3 (scaling of the loss). For a batch processed with accumulation steps other
  than zero, the first two calls are the forward pass and the backward pass, the backward
  pass receives the loss of the forward pass divided by the accumulation steps, no other
  backward pass happens, and that same quotient is what is added to the loss total.
\<close>

theorem loss_scaled_before_backward:
  assumes "gradient_accumulation_steps a \<noteq> 0"
  shows "\<exists>acc' s'. train_batch sub ctx d a step xy (acc, s) = Inr (acc', s')
     \<and> take 2 (drop (length (trace s)) (trace s')) =
          [Forward ctx (training s) (grad_enabled s),
           Backward (\<not> no_sync d step (gradient_accumulation_steps a))
             (model_loss sub (trace s) xy / of_int (gradient_accumulation_steps a))]
     \<and> backward_losses (drop (length (trace s)) (trace s')) =
          [model_loss sub (trace s) xy / of_int (gradient_accumulation_steps a)]
     \<and> total_cross_entropy acc' =
          total_cross_entropy acc
            + model_loss sub (trace s) xy / of_int (gradient_accumulation_steps a)"
  unfolding train_batch_ok [OF assms] by (simp add: Let_def)

theorem loss_scaled_before_backward_witness:
  "gradient_accumulation_steps (default_args\<lparr>gradient_accumulation_steps := 8\<rparr>) \<noteq> 0
   \<and> (\<exists>acc' s'. train_batch \<lparr>model_loss = \<lambda>tr xy. 4, clip_norm = \<lambda>tr. 1\<rparr>
          \<lparr>device_type = ''cuda'', ac_dtype = bfloat16\<rparr> False
          (default_args\<lparr>gradient_accumulation_steps := 8\<rparr>) 3 ()
          (init_acc, initial_state) = Inr (acc', s')
        \<and> trace s' = [Forward \<lparr>device_type = ''cuda'', ac_dtype = bfloat16\<rparr> True True,
                       Backward True (1 / 2)]
        \<and> total_cross_entropy acc' = 1 / 2)"
  using loss_scaled_before_backward
    [of "default_args\<lparr>gradient_accumulation_steps := 8\<rparr>"
        "\<lparr>model_loss = \<lambda>tr xy. 4, clip_norm = \<lambda>tr. 1\<rparr>"
        "\<lparr>device_type = ''cuda'', ac_dtype = bfloat16\<rparr>" False 3 "()"
        init_acc initial_state]
  by (simp add: train_batch_def emit_def Let_def no_sync_def init_acc_def initial_state_def)

text \<open>
  Claim C4 (precision policy). The reduced precision would have to be chosen whenever the
  accelerator supports it, also in a distributed run. The script chooses it only when the
  device string equals \<open>cuda\<close>, and the distributed set-up has just made it
  \<open>cuda:LOCAL_RANK\<close>: on a platform that supports bf16, worker 0 of 4 gets full precision,
  while the same platform outside a distributed run gets bf16.
\<close>

theorem ddp_selects_float32:
  "startup \<lparr>cuda_is_available = True, is_bf16_supported = True\<rparr>
     \<lparr>RANK = 0, LOCAL_RANK = 0, WORLD_SIZE = 4\<rparr> default_args
   = Inr (default_args\<lparr>device := ''cuda:0'', gradient_accumulation_steps := 8\<rparr>, [],
          \<lparr>device_type = ''cuda:0'', ac_dtype = float32\<rparr>)
   \<and> startup \<lparr>cuda_is_available = True, is_bf16_supported = True\<rparr>
     \<lparr>RANK = - 1, LOCAL_RANK = - 1, WORLD_SIZE = - 1\<rparr> default_args
   = Inr (default_args, [], \<lparr>device_type = ''cuda'', ac_dtype = bfloat16\<rparr>)"
  by (simp add: startup_def validate_args_def ddp_setup_def IS_DDP_def forward_context_def
      select_dtype_def default_args_def starts_with_def str_int_def str_nat.simps
      digit_char_def Let_def)

text \<open>
  Claim C5 (effective accumulation steps). In a distributed run with a world size other
  than zero the set-up succeeds, the accumulation steps become the floor of the configured
  ones divided by the world size, the divisibility warning is issued exactly when the
  world size does not divide the configured steps, and start-up goes on with these values
  whenever the validation has passed.
\<close>

theorem ddp_effective_accumulation_steps:
  assumes "IS_DDP env" and "WORLD_SIZE env \<noteq> 0"
  shows "\<exists>a' ws. ddp_setup env a = Inr (a', ws)
     \<and> gradient_accumulation_steps a' = gradient_accumulation_steps a div WORLD_SIZE env
     \<and> (DivisibilityWarning \<in> set ws) = (\<not> WORLD_SIZE env dvd gradient_accumulation_steps a)
     \<and> startup pf env a =
          (case validate_args pf a of
             Inl e \<Rightarrow> Inl e
           | Inr u \<Rightarrow> Inr (a', ws, forward_context pf a'))"
  using assms
  by (simp add: ddp_setup_def startup_def Let_def dvd_eq_mod_eq_0
      split: option.split sum.split)

theorem ddp_effective_accumulation_steps_witness:
  "IS_DDP \<lparr>RANK = 0, LOCAL_RANK = 0, WORLD_SIZE = 4\<rparr>
   \<and> WORLD_SIZE \<lparr>RANK = 0, LOCAL_RANK = 0, WORLD_SIZE = 4\<rparr> \<noteq> 0
   \<and> (\<exists>a' ws. ddp_setup \<lparr>RANK = 0, LOCAL_RANK = 0, WORLD_SIZE = 4\<rparr> default_args = Inr (a', ws)
        \<and> gradient_accumulation_steps a' = 8 \<and> ws = [])
   \<and> (\<exists>a' ws. ddp_setup \<lparr>RANK = 0, LOCAL_RANK = 0, WORLD_SIZE = 4\<rparr>
                  (default_args\<lparr>gradient_accumulation_steps := 10\<rparr>) = Inr (a', ws)
        \<and> gradient_accumulation_steps a' = 2 \<and> ws = [DivisibilityWarning])"
  using ddp_effective_accumulation_steps
    [of "\<lparr>RANK = 0, LOCAL_RANK = 0, WORLD_SIZE = 4\<rparr>" default_args]
  by (simp add: IS_DDP_def ddp_setup_def default_args_def Let_def)

text \<open>
  Claim C6 (frame of the evaluation pass). An evaluation pass makes no call that touches
  the optimizer; after it the model is in training mode, the metric is empty and the
  gradient mode is what it was; what was recorded before is kept; and each of its forward
  passes, one per test batch, ran with gradients disabled, the model in evaluation mode,
  under the given autocast context.
\<close>

theorem evaluation_pass_frame:
  "optimizer_events (trace (evaluate ctx test_batches s)) = optimizer_events (trace s)
   \<and> training (evaluate ctx test_batches s)
   \<and> metric_updates (evaluate ctx test_batches s) = 0
   \<and> grad_enabled (evaluate ctx test_batches s) = grad_enabled s
   \<and> take (length (trace s)) (trace (evaluate ctx test_batches s)) = trace s
   \<and> forward_grad_modes (drop (length (trace s)) (trace (evaluate ctx test_batches s)))
        = replicate (length test_batches) False
   \<and> forward_training_modes (drop (length (trace s)) (trace (evaluate ctx test_batches s)))
        = replicate (length test_batches) False
   \<and> forward_contexts (drop (length (trace s)) (trace (evaluate ctx test_batches s)))
        = replicate (length test_batches) ctx"
proof -
  have m: "training (evaluate ctx test_batches s)"
    "metric_updates (evaluate ctx test_batches s) = 0"
    by (simp_all add: evaluate_def emit_def Let_def)
  have g: "grad_enabled (evaluate ctx test_batches s) = grad_enabled s"
    using eval_loop_run [of ctx test_batches "s\<lparr>training := False\<rparr>"]
    by (simp add: evaluate_def emit_def Let_def)
  show ?thesis
    using m g
    by (simp add: evaluate_trace optimizer_events_eval forward_grad_modes_eval
        forward_training_modes_eval forward_contexts_eval)
qed

text \<open>
  Claim C7 (resuming). When resumption is requested, it fails with the
  checkpoint-not-found kind if nothing is stored at the checkpoint path, fails with the
  shape-mismatch kind if the stored model state has other shapes than the live model, and
  otherwise yields exactly the stored model state and the stored optimizer state.
\<close>

theorem resume_loads_checkpoint:
  assumes "resume a"
  shows "resume_checkpoint storage a (model, optimizer) =
     (case storage (checkpoint_path a) of
        None \<Rightarrow> Inl CheckpointNotFoundError
      | Some ck \<Rightarrow>
          if shapes (ck_model ck) = shapes model
          then Inr (ck_model ck, ck_optimizer ck)
          else Inl StateShapeMismatchError)"
  using assms
  by (simp add: resume_checkpoint_def torch_load_def load_state_dict_def
      optimizer_load_state_dict_def split: option.split)

theorem resume_loads_checkpoint_witness:
  "resume (default_args\<lparr>resume := True\<rparr>)
   \<and> resume_checkpoint Map.empty (default_args\<lparr>resume := True\<rparr>)
        (\<lparr>shapes = [[2, 3]], tensors = (0::nat)\<rparr>, (0::nat)) = Inl CheckpointNotFoundError
   \<and> resume_checkpoint
        [''./out/checkpoint.pt'' \<mapsto>
           \<lparr>ck_model = \<lparr>shapes = [[4, 3]], tensors = 7\<rparr>, ck_optimizer = 9\<rparr>]
        (default_args\<lparr>resume := True\<rparr>)
        (\<lparr>shapes = [[2, 3]], tensors = (0::nat)\<rparr>, (0::nat)) = Inl StateShapeMismatchError
   \<and> resume_checkpoint
        [''./out/checkpoint.pt'' \<mapsto>
           \<lparr>ck_model = \<lparr>shapes = [[2, 3]], tensors = 7\<rparr>, ck_optimizer = 9\<rparr>]
        (default_args\<lparr>resume := True\<rparr>)
        (\<lparr>shapes = [[2, 3]], tensors = (0::nat)\<rparr>, (0::nat))
       = Inr (\<lparr>shapes = [[2, 3]], tensors = 7\<rparr>, 9)"
proof -
  have r: "resume (default_args\<lparr>resume := True\<rparr>)" by simp
  have p: "checkpoint_path (default_args\<lparr>resume := True\<rparr>) = ''./out/checkpoint.pt''"
    by (simp add: default_args_def)
  show ?thesis
    using r
      resume_loads_checkpoint [OF r, of Map.empty "\<lparr>shapes = [[2, 3]], tensors = (0::nat)\<rparr>" "0::nat"]
      resume_loads_checkpoint [OF r, of "[''./out/checkpoint.pt'' \<mapsto>
           \<lparr>ck_model = \<lparr>shapes = [[4, 3]], tensors = 7\<rparr>, ck_optimizer = 9\<rparr>]"
           "\<lparr>shapes = [[2, 3]], tensors = (0::nat)\<rparr>" "0::nat"]
      resume_loads_checkpoint [OF r, of "[''./out/checkpoint.pt'' \<mapsto>
           \<lparr>ck_model = \<lparr>shapes = [[2, 3]], tensors = 7\<rparr>, ck_optimizer = 9\<rparr>]"
           "\<lparr>shapes = [[2, 3]], tensors = (0::nat)\<rparr>" "0::nat"]
    by (simp add: p)
qed

text \<open>
  Claim C8 (validation of the arguments). Every count and rate would have to be positive,
  a learning rate of zero included. The script rejects a learning rate only when it is
  below zero (its message asks for a positive value): with a learning rate of zero and
  the defaults otherwise, the validation passes.
\<close>

theorem zero_learning_rate_accepted:
  "validate_args \<lparr>cuda_is_available = True, is_bf16_supported = True\<rparr>
     (default_args\<lparr>learning_rate := 0\<rparr>) = Inr ()"
  by (simp add: validate_args_def default_args_def)

text \<open>
  Claim C9 (world size above the accumulation steps). When the validation has passed and
  the run is distributed with a world size above the configured accumulation steps,
  start-up succeeds with zero accumulation steps, the first batch raises a division by
  zero, and so does every epoch that has a batch.
\<close>

theorem accumulation_steps_zero_when_world_size_larger:
  assumes "validate_args pf a = Inr ()" and "IS_DDP env"
    and "gradient_accumulation_steps a < WORLD_SIZE env"
  shows "\<exists>a' ws ctx. startup pf env a = Inr (a', ws, ctx)
     \<and> gradient_accumulation_steps a' = 0
     \<and> train_batch sub ctx (IS_DDP env) a' 1 xy (acc, s) = Inl ZeroDivisionError
     \<and> train_epoch sub ctx (IS_DDP env) a' (xy # rest) s = Inl ZeroDivisionError"
proof -
  have pos: "1 \<le> gradient_accumulation_steps a"
    using assms(1) by (simp add: validate_args_def split: if_splits)
  with assms(3) have w: "WORLD_SIZE env \<noteq> 0" by simp
  from pos assms(3) have z: "gradient_accumulation_steps a div WORLD_SIZE env = 0"
    by simp
  obtain a' ws where d: "ddp_setup env a = Inr (a', ws)"
    and g: "gradient_accumulation_steps a' = 0"
    using assms(2) w z
    by (simp add: ddp_setup_def Let_def split: option.split)
  have st: "startup pf env a = Inr (a', ws, forward_context pf a')"
    using assms(1) d by (simp add: startup_def)
  have b: "\<And>ctx d acc s. train_batch sub ctx d a' 1 xy (acc, s) = Inl ZeroDivisionError"
    using g by (simp add: train_batch_def Let_def)
  have e: "\<And>ctx d. train_epoch sub ctx d a' (xy # rest) s = Inl ZeroDivisionError"
    using b by (simp add: train_epoch_def)
  show ?thesis using st g b e by simp
qed

theorem accumulation_steps_zero_when_world_size_larger_witness:
  "validate_args \<lparr>cuda_is_available = True, is_bf16_supported = True\<rparr>
       (default_args\<lparr>gradient_accumulation_steps := 2\<rparr>) = Inr ()
   \<and> IS_DDP \<lparr>RANK = 1, LOCAL_RANK = 1, WORLD_SIZE = 4\<rparr>
   \<and> gradient_accumulation_steps (default_args\<lparr>gradient_accumulation_steps := 2\<rparr>)
        < WORLD_SIZE \<lparr>RANK = 1, LOCAL_RANK = 1, WORLD_SIZE = 4\<rparr>
   \<and> (\<exists>a' ws ctx.
         startup \<lparr>cuda_is_available = True, is_bf16_supported = True\<rparr>
           \<lparr>RANK = 1, LOCAL_RANK = 1, WORLD_SIZE = 4\<rparr>
           (default_args\<lparr>gradient_accumulation_steps := 2\<rparr>) = Inr (a', ws, ctx)
         \<and> gradient_accumulation_steps a' = 0
         \<and> train_epoch \<lparr>model_loss = \<lambda>tr xy. 3, clip_norm = \<lambda>tr. 1\<rparr> ctx True a' [()]
               initial_state = Inl ZeroDivisionError)"
proof -
  have v: "validate_args \<lparr>cuda_is_available = True, is_bf16_supported = True\<rparr>
       (default_args\<lparr>gradient_accumulation_steps := 2\<rparr>) = Inr ()"
    by (simp add: validate_args_def default_args_def)
  have d: "IS_DDP \<lparr>RANK = 1, LOCAL_RANK = 1, WORLD_SIZE = 4\<rparr>"
    by (simp add: IS_DDP_def)
  have l: "gradient_accumulation_steps (default_args\<lparr>gradient_accumulation_steps := 2\<rparr>)
        < WORLD_SIZE \<lparr>RANK = 1, LOCAL_RANK = 1, WORLD_SIZE = 4\<rparr>"
    by simp
  from accumulation_steps_zero_when_world_size_larger [OF v d l,
      of "\<lparr>model_loss = \<lambda>tr xy. 3, clip_norm = \<lambda>tr. 1\<rparr>" "()" init_acc initial_state "[]"]
  show ?thesis using v d l by auto
qed

text \<open>
  Claim C10 (epochs shorter than a window). When an epoch has fewer batches than
  accumulation steps, all its batches are processed without any call to the optimizer, the
  step count is zero, the division of the gradient norm total by it raises, the division
  of the loss total by the batch count raises exactly when there is no batch, and the
  epoch ends with a division by zero instead of a report.
\<close>

theorem short_epoch_division_by_zero:
  assumes "int (length batches) < gradient_accumulation_steps a"
  shows "\<exists>acc s'. train_loop sub ctx d a 1 batches (init_acc, s) = Inr (acc, s')
     \<and> total_steps acc = 0
     \<and> optimizer_events (trace s') = optimizer_events (trace s)
     \<and> py_truediv (total_gradient_norm acc) (total_steps acc) = Inl ZeroDivisionError
     \<and> (py_truediv (total_cross_entropy acc) (total_batches acc) = Inl ZeroDivisionError)
         = (batches = [])
     \<and> report acc = Inl ZeroDivisionError
     \<and> train_epoch sub ctx d a batches s = Inl ZeroDivisionError"
proof -
  let ?g = "gradient_accumulation_steps a"
  let ?n = "int (length batches)"
  have g: "0 < ?g" using assms by linarith
  from train_loop_run [OF g, of sub ctx d 0 batches init_acc s]
  obtain acc s' where run: "train_loop sub ctx d a 1 batches (init_acc, s) = Inr (acc, s')"
    and tb: "total_batches acc = ?n"
    and ts: "total_steps acc = ?n div ?g"
    and pre: "take (length (trace s)) (trace s') = trace s"
    and calls: "map call_of (drop (length (trace s)) (trace s')) =
        concat (map (batch_calls ?g) [1 .. ?n])"
    by (auto simp: init_acc_def)
  have ts0: "total_steps acc = 0" using ts assms by simp
  have "\<And>i. i \<in> set [1 .. ?n] \<Longrightarrow> batch_calls ?g i = [ForwardCall, BackwardCall]"
    using assms by (simp add: batch_calls_def)
  then have "filter (\<lambda>c. c = StepCall \<or> c = ZeroGradCall)
      (concat (map (batch_calls ?g) [1 .. ?n])) = []"
    by (induction "[1 .. ?n]") (auto simp: filter_empty_conv)
  then have "filter (\<lambda>c. c = StepCall \<or> c = ZeroGradCall)
      (map call_of (drop (length (trace s)) (trace s'))) = []"
    using calls by simp
  then have "filter touches_optimizer (drop (length (trace s)) (trace s')) = []"
    unfolding filter_empty_conv
    proof (intro ballI)
      fix e assume "\<forall>x\<in>set (map call_of (drop (length (trace s)) (trace s'))). \<not> (x = StepCall \<or> x = ZeroGradCall)"
        and "e \<in> set (drop (length (trace s)) (trace s'))"
      then have "\<not> (call_of e = StepCall \<or> call_of e = ZeroGradCall)" by simp
      then show "\<not> touches_optimizer e" by (cases e) simp_all
    qed
  moreover have "trace s' = trace s @ drop (length (trace s)) (trace s')"
    using pre by (metis append_take_drop_id)
  ultimately have opt: "optimizer_events (trace s') = optimizer_events (trace s)"
    unfolding optimizer_events_def by (metis append_Nil2 filter_append)
  have r: "report acc = Inl ZeroDivisionError"
    using ts0 by (simp add: report_def py_truediv_def split: sum.split)
  show ?thesis
    using run ts0 opt r tb by (simp add: train_epoch_def py_truediv_def)
qed

theorem short_epoch_division_by_zero_witness:
  "int (length [(), ()]) < gradient_accumulation_steps (default_args\<lparr>gradient_accumulation_steps := 8\<rparr>)
   \<and> train_epoch \<lparr>model_loss = \<lambda>tr xy. 3, clip_norm = \<lambda>tr. 1\<rparr>
         \<lparr>device_type = ''cuda'', ac_dtype = bfloat16\<rparr> False
         (default_args\<lparr>gradient_accumulation_steps := 8\<rparr>) [(), ()] initial_state
       = Inl ZeroDivisionError"
  using short_epoch_division_by_zero
    [of "[(), ()]" "default_args\<lparr>gradient_accumulation_steps := 8\<rparr>"
        "\<lparr>model_loss = \<lambda>tr xy. 3, clip_norm = \<lambda>tr. 1\<rparr>"
        "\<lparr>device_type = ''cuda'', ac_dtype = bfloat16\<rparr>" False initial_state]
  by auto

end
